theory Spec2Isabelle
  imports Main
begin

section \<open>The plugin's entry point (src/index.ts)\<close>

text \<open>
  The plugin reads one \<open>CodeGeneratorRequest\<close>, and \<open>main\<close> answers with one
  \<open>CodeGeneratorResponse\<close> holding a generated TypeScript file per schema file.
  \<open>index.ts\<close> is embedded function by function. What it imports from the rest of the
  package (\<open>option.js\<close>, \<open>type.js\<close>, \<open>descriptor.js\<close>, the style modules) and
  from \<open>typescript\<close> and \<open>path\<close> is not in the sources at hand: those functions are
  the fields of an environment record, so every theorem holds for whatever they compute.
\<close>

subsection \<open>Descriptors, requests and responses\<close>

text \<open>
  \<open>main\<close> only hands enum, message and service descriptors on to the translators, so
  their types are parameters (\<open>'e\<close>, \<open>'m\<close>, \<open>'v\<close>). \<open>package\<close> is optional
  (\<open>protoFile.package ?? ''\<close> in the source).
\<close>

record ('e, 'm, 'v) FileDescriptorProto =
  name :: string
  package :: "string option"
  dependency :: "string list"
  enum_type :: "'e list"
  message_type :: "'m list"
  service :: "'v list"

record Version =
  major :: "int option"
  minor :: "int option"
  patch :: "int option"

record ('e, 'm, 'v) CodeGeneratorRequest =
  parameter :: "string option"
  proto_file :: "('e, 'm, 'v) FileDescriptorProto list"
  compiler_version :: Version

text \<open>
  A generated file: its name and its content, the printer's output (\<open>'c\<close>; text for
  the TypeScript printer).
\<close>

record 'c File =
  out_name :: string
  content :: 'c

record 'c CodeGeneratorResponse =
  file' :: "'c File list"

record Options =
  style :: "string option"
  grpc_package :: string

subsection \<open>The TypeScript factory\<close>

text \<open>
  \<open>factory.createUniqueName(text)\<close> returns a generated identifier: a node holding the
  base text and the factory's next auto-generate id, which the call increments. Two
  such identifiers are the same node exactly when their ids agree.
\<close>

record Identifier =
  escapedText :: string
  autoGenerateId :: nat

text \<open>
  The statements \<open>main\<close> itself builds are the header comment and the namespace
  imports (\<open>import * as identifier from "moduleSpecifier"\<close>); every other statement is
  a declaration \<open>'d\<close> built by a translator.
\<close>

datatype 'd Statement =
    JSDocComment string
  | ImportDeclaration Identifier string
  | Declaration 'd

datatype error =
    ModuleNotFound string
  | Thrown string

subsection \<open>Process state\<close>

text \<open>
  Two pieces of module state outlive a call: the factory's id counter, and the state of
  \<open>type.js\<close>, which holds the symbol table filled by \<open>preprocess\<close> (\<open>'s\<close>) and
  the dependency map written by \<open>setIdentifierForDependency\<close>.
\<close>

type_synonym DependencyMap = "string \<Rightarrow> Identifier option"

record 's TypeModule =
  symbolMap :: 's
  dependencyMap :: DependencyMap

record 's state =
  nextAutoGenerateId :: nat
  typeModule :: "'s TypeModule"

definition uniqueName :: "string \<Rightarrow> nat \<Rightarrow> Identifier" where
  "uniqueName text k = \<lparr>escapedText = text, autoGenerateId = k\<rparr>"

definition createUniqueName :: "string \<Rightarrow> 's state \<Rightarrow> Identifier \<times> 's state" where
  "createUniqueName text st =
     (uniqueName text (nextAutoGenerateId st),
      st\<lparr>nextAutoGenerateId := Suc (nextAutoGenerateId st)\<rparr>)"

text \<open>
  Modelled from the spec: \<open>resetDependencyMap\<close> of \<open>type.js\<close>, which is not among
  the sources. The Dependency Identifier Map "maps a dependency's schema file name
  to the unique generated import alias" and "must be cleared": resetting leaves no
  name bound.
\<close>

definition resetDependencyMap :: "'s state \<Rightarrow> 's state" where
  "resetDependencyMap st = st\<lparr>typeModule := (typeModule st)\<lparr>dependencyMap := Map.empty\<rparr>\<rparr>"

text \<open>
  Modelled from the spec: \<open>setIdentifierForDependency\<close> of \<open>type.js\<close>, which is not
  among the sources. It binds one dependency name to its alias in the Dependency
  Identifier Map; a name bound before is bound anew.
\<close>

definition setIdentifierForDependency :: "string \<Rightarrow> Identifier \<Rightarrow> 's state \<Rightarrow> 's state" where
  "setIdentifierForDependency dep identifier st =
     st\<lparr>typeModule :=
          (typeModule st)\<lparr>dependencyMap := (dependencyMap (typeModule st))(dep \<mapsto> identifier)\<rparr>\<rparr>"

subsection \<open>The RPC backend and the environment\<close>

text \<open>
  The interface \<open>Rpc\<close>: four optional operations. The three that build declarations
  run inside the package and may read the state of \<open>type.js\<close> and may throw.
\<close>

record ('e, 'm, 'v, 'd, 's) Rpc =
  createServiceClient ::
    "('s TypeModule \<Rightarrow> ('e, 'm, 'v) FileDescriptorProto \<Rightarrow> 'v \<Rightarrow> Identifier \<Rightarrow> Options \<Rightarrow> error + 'd) option"
  createUnimplementedServer ::
    "('s TypeModule \<Rightarrow> ('e, 'm, 'v) FileDescriptorProto \<Rightarrow> 'v \<Rightarrow> Identifier \<Rightarrow> error + 'd) option"
  createGrpcInterfaceType ::
    "('s TypeModule \<Rightarrow> Identifier \<Rightarrow> error + 'd list) option"
  wrapInNamespace ::
    "(('e, 'm, 'v) FileDescriptorProto \<Rightarrow> bool) option"

text \<open>
  What \<open>index.ts\<close> imports and does not define. \<open>importModule\<close> is the dynamic
  \<open>import()\<close>: the module found at a path, if any. \<open>dirname\<close> and \<open>relative\<close> are
  those of Node's \<open>path\<close>; \<open>printFile\<close> is the TypeScript printer applied to the
  source file made of the statements. The translators are given the state of
  \<open>type.js\<close> they run in; they are taken to read it only (the one writer of the
  symbol table is \<open>preprocess\<close>, the writers of the dependency map are the two
  functions above) and to leave the factory's counter as it is.
\<close>

record ('e, 'm, 'v, 'd, 's, 'c) env =
  parseInput :: "string option \<Rightarrow> error + Options"
  importModule :: "string \<Rightarrow> ('e, 'm, 'v, 'd, 's) Rpc option"
  initialSymbols :: 's
  preprocess :: "'s \<Rightarrow> ('e, 'm, 'v) FileDescriptorProto \<Rightarrow> string \<Rightarrow> string \<Rightarrow> error + 's"
  createEnum :: "'e \<Rightarrow> error + 'd"
  createMessage ::
    "'s TypeModule \<Rightarrow> ('e, 'm, 'v) FileDescriptorProto \<Rightarrow> 'm \<Rightarrow> Identifier \<Rightarrow> error + 'd list"
  createNamespace :: "string option \<Rightarrow> 'd list \<Rightarrow> 'd"
  dirname :: "string \<Rightarrow> string"
  relative :: "string \<Rightarrow> string \<Rightarrow> string"
  printFile :: "'d Statement list \<Rightarrow> 'c"

subsection \<open>createImport, createComment, replaceExtension\<close>

definition createImport :: "Identifier \<Rightarrow> string \<Rightarrow> 'd Statement" where
  "createImport identifier moduleSpecifier = ImportDeclaration identifier moduleSpecifier"

text \<open>Template literals print a number in decimal.\<close>

function showNat :: "nat \<Rightarrow> string" where
  "showNat n =
     (if n < 10 then [''0123456789'' ! n]
      else showNat (n div 10) @ [''0123456789'' ! (n mod 10)])"
  by pat_completeness auto
termination
  by (relation "measure (\<lambda>n. n)") auto

definition showInt :: "int \<Rightarrow> string" where
  "showInt i = (if i < 0 then CHR ''-'' # showNat (nat (- i)) else showNat (nat i))"

text \<open>The destructuring defaults: \<open>{ major = 0, minor = 0, patch = 0 }\<close>.\<close>

definition orZero :: "int option \<Rightarrow> int" where
  "orZero v = (case v of None \<Rightarrow> 0 | Some i \<Rightarrow> i)"

definition createComment ::
  "('e, 'm, 'v) FileDescriptorProto \<Rightarrow> Version \<Rightarrow> 'd Statement" where
  "createComment fileDescriptor version =
     JSDocComment
       (''Generated by @fyn-software/protoc-plugin-ts. DO NOT EDIT!'' @ [CHR 0x0A] @
        ''compiler version: '' @ showInt (orZero (major version)) @ ''.'' @
          showInt (orZero (minor version)) @ ''.'' @ showInt (orZero (patch version)) @ [CHR 0x0A] @
        ''source: '' @ name fileDescriptor @ [CHR 0x0A] @
        ''git: https://github.com/fyn-software/protoc-plugin-ts'' @ [CHR 0x0A])"

text \<open>
  \<open>filename.replace(/\.[^/.]+$/, extension)\<close>. The pattern matches a dot followed, up
  to the end of the name, by one or more characters that are neither a slash nor a
  dot; so it can only match at the last dot, and does when what follows that dot is
  not empty and holds no slash. Reading the name from its end: the longest run of
  characters other than \<open>/\<close> and \<open>.\<close> is the extension, if a dot stands before it.
  (The two extensions \<open>main\<close> passes, \<open>.ts\<close> and the empty string, hold no \<open>$\<close>,
  so the replacement is literal.)
\<close>

definition replaceExtension :: "string \<Rightarrow> string \<Rightarrow> string" where
  "replaceExtension filename extension =
     (let isExt = (\<lambda>c. c \<noteq> CHR ''/'' \<and> c \<noteq> CHR ''.'') in
      case dropWhile isExt (rev filename) of
        [] \<Rightarrow> filename
      | c # stem \<Rightarrow>
          if c = CHR ''.'' \<and> takeWhile isExt (rev filename) \<noteq> []
          then rev stem @ extension
          else filename)"

subsection \<open>main\<close>

text \<open>\<open>Array.map\<close> with a callback that may throw: the first exception ends it.\<close>

fun mapResult :: "('a \<Rightarrow> error + 'b) \<Rightarrow> 'a list \<Rightarrow> error + 'b list" where
  "mapResult f [] = Inr []"
| "mapResult f (x # xs) =
     (case f x of
        Inl e \<Rightarrow> Inl e
      | Inr y \<Rightarrow> (case mapResult f xs of Inl e \<Rightarrow> Inl e | Inr ys \<Rightarrow> Inr (y # ys)))"

text \<open>
  An optional call \<open>f?.(...)\<close>: \<open>undefined\<close> when the operation is absent, else its
  result.
\<close>

definition optionalCall :: "'f option \<Rightarrow> ('f \<Rightarrow> error + 'a) \<Rightarrow> error + 'a option" where
  "optionalCall f call =
     (case f of
        None \<Rightarrow> Inr None
      | Some g \<Rightarrow> (case call g of Inl e \<Rightarrow> Inl e | Inr r \<Rightarrow> Inr (Some r)))"

text \<open>
  Lines 107-110, the callback over \<open>file.service\<close>: the server, then the client, and
  \<open>.filter(c => c !== undefined)\<close>.
\<close>

definition createServiceDeclarations ::
  "('e, 'm, 'v, 'd, 's) Rpc \<Rightarrow> Options \<Rightarrow> Identifier \<Rightarrow> 's TypeModule \<Rightarrow>
   ('e, 'm, 'v) FileDescriptorProto \<Rightarrow> 'v \<Rightarrow> error + 'd list" where
  "createServiceDeclarations rpc options grpcIdentifier tm fileDescriptor serviceDescriptor =
     (case optionalCall (createUnimplementedServer rpc)
             (\<lambda>g. g tm fileDescriptor serviceDescriptor grpcIdentifier) of
        Inl e \<Rightarrow> Inl e
      | Inr server \<Rightarrow>
          (case optionalCall (createServiceClient rpc)
                  (\<lambda>g. g tm fileDescriptor serviceDescriptor grpcIdentifier options) of
             Inl e \<Rightarrow> Inl e
           | Inr client \<Rightarrow> Inr (map the (filter (\<lambda>c. c \<noteq> None) [server, client]))))"

text \<open>
  Lines 96-111, the array \<open>statements\<close>: enums, messages, the backend's interface
  types (\<open>?? []\<close> when the operation is absent), then the services. The translators
  see the state of \<open>type.js\<close> as it is when the array is built.
\<close>

definition createStatements ::
  "('e, 'm, 'v, 'd, 's, 'c) env \<Rightarrow> ('e, 'm, 'v, 'd, 's) Rpc \<Rightarrow> Options \<Rightarrow> Identifier \<Rightarrow>
   Identifier \<Rightarrow> 's TypeModule \<Rightarrow> ('e, 'm, 'v) FileDescriptorProto \<Rightarrow> error + 'd list" where
  "createStatements env rpc options pbIdentifier grpcIdentifier tm fileDescriptor =
     (case mapResult (createEnum env) (enum_type fileDescriptor) of
        Inl e \<Rightarrow> Inl e
      | Inr enums \<Rightarrow>
          (case mapResult (\<lambda>message. createMessage env tm fileDescriptor message pbIdentifier)
                  (message_type fileDescriptor) of
             Inl e \<Rightarrow> Inl e
           | Inr messages \<Rightarrow>
               (case optionalCall (createGrpcInterfaceType rpc) (\<lambda>g. g tm grpcIdentifier) of
                  Inl e \<Rightarrow> Inl e
                | Inr interfaces \<Rightarrow>
                    (case mapResult
                            (createServiceDeclarations rpc options grpcIdentifier tm fileDescriptor)
                            (service fileDescriptor) of
                       Inl e \<Rightarrow> Inl e
                     | Inr services \<Rightarrow>
                         Inr (enums @ concat messages
                              @ (case interfaces of None \<Rightarrow> [] | Some ds \<Rightarrow> ds)
                              @ concat services)))))"

text \<open>
  Line 130, the module specifier of a dependency import:
  \<open>`./${relative(dirname(file.name), replaceExtension(dependency, ''))}`\<close>.
\<close>

definition dependencyModule ::
  "('e, 'm, 'v, 'd, 's, 'c) env \<Rightarrow> ('e, 'm, 'v) FileDescriptorProto \<Rightarrow> string \<Rightarrow> string" where
  "dependencyModule env fileDescriptor dep =
     ''./'' @ relative env (dirname env (name fileDescriptor)) (replaceExtension dep [])"

text \<open>
  Lines 123-132, the callback over \<open>file.dependency\<close>: a fresh identifier, bound to
  the dependency in the map, and the import of the dependency's module.
\<close>

fun createDependencyImports ::
  "('e, 'm, 'v, 'd, 's, 'c) env \<Rightarrow> ('e, 'm, 'v) FileDescriptorProto \<Rightarrow> string list \<Rightarrow> 's state \<Rightarrow>
   'd Statement list \<times> 's state" where
  "createDependencyImports env fileDescriptor [] st = ([], st)"
| "createDependencyImports env fileDescriptor (dep # deps) st =
     (let (identifier, st1) = createUniqueName ''dependency'' st;
          st2 = setIdentifierForDependency dep identifier st1;
          imp = createImport identifier (dependencyModule env fileDescriptor dep);
          (imps, st3) = createDependencyImports env fileDescriptor deps st2
      in (imp # imps, st3))"

text \<open>
  Lines 139-142: \<open>wrapInNamespace?.(file) ?? false\<close> chooses between the one
  namespace and the statements themselves.
\<close>

definition wrapsInNamespace ::
  "('e, 'm, 'v, 'd, 's) Rpc \<Rightarrow> ('e, 'm, 'v) FileDescriptorProto \<Rightarrow> bool" where
  "wrapsInNamespace rpc fileDescriptor =
     (case wrapInNamespace rpc of None \<Rightarrow> False | Some query \<Rightarrow> query fileDescriptor)"

definition addStatements ::
  "('e, 'm, 'v, 'd, 's, 'c) env \<Rightarrow> ('e, 'm, 'v, 'd, 's) Rpc \<Rightarrow> ('e, 'm, 'v) FileDescriptorProto \<Rightarrow>
   'd list \<Rightarrow> 'd Statement list" where
  "addStatements env rpc fileDescriptor statements =
     (if wrapsInNamespace rpc fileDescriptor
      then [Declaration (createNamespace env (package fileDescriptor) statements)]
      else map Declaration statements)"

text \<open>
  Lines 94-148, the callback over \<open>request.proto_file\<close>, in the order the source
  evaluates it: the statements, then \<open>resetDependencyMap()\<close>, then the file with its
  name and the printed source file.
\<close>

definition generateFile ::
  "('e, 'm, 'v, 'd, 's, 'c) env \<Rightarrow> ('e, 'm, 'v, 'd, 's) Rpc \<Rightarrow> Options \<Rightarrow> Identifier \<Rightarrow>
   Identifier \<Rightarrow> Version \<Rightarrow> ('e, 'm, 'v) FileDescriptorProto \<Rightarrow> 's state \<Rightarrow>
   error + ('c File \<times> 's state)" where
  "generateFile env rpc options pbIdentifier grpcIdentifier version fileDescriptor st =
     (case createStatements env rpc options pbIdentifier grpcIdentifier (typeModule st) fileDescriptor of
        Inl e \<Rightarrow> Inl e
      | Inr statements \<Rightarrow>
          (let st1 = resetDependencyMap st;
               (imports, st2) =
                 createDependencyImports env fileDescriptor (dependency fileDescriptor) st1
           in Inr (\<lparr>out_name = replaceExtension (name fileDescriptor) ''.ts'',
                    content = printFile env
                      ([createComment fileDescriptor version]
                       @ imports
                       @ [createImport pbIdentifier ''google-protobuf'',
                          createImport grpcIdentifier (grpc_package options)]
                       @ addStatements env rpc fileDescriptor statements)\<rparr>,
                   st2)))"

fun generateFiles ::
  "('e, 'm, 'v, 'd, 's, 'c) env \<Rightarrow> ('e, 'm, 'v, 'd, 's) Rpc \<Rightarrow> Options \<Rightarrow> Identifier \<Rightarrow>
   Identifier \<Rightarrow> Version \<Rightarrow> ('e, 'm, 'v) FileDescriptorProto list \<Rightarrow> 's state \<Rightarrow>
   error + ('c File list \<times> 's state)" where
  "generateFiles env rpc options pbIdentifier grpcIdentifier version [] st = Inr ([], st)"
| "generateFiles env rpc options pbIdentifier grpcIdentifier version (f # fs) st =
     (case generateFile env rpc options pbIdentifier grpcIdentifier version f st of
        Inl e \<Rightarrow> Inl e
      | Inr (generated, st1) \<Rightarrow>
          (case generateFiles env rpc options pbIdentifier grpcIdentifier version fs st1 of
             Inl e \<Rightarrow> Inl e
           | Inr (rest, st2) \<Rightarrow> Inr (generated # rest, st2)))"

text \<open>Lines 87-90: \<open>preprocess\<close> over every file, before any file is translated.\<close>

fun preprocessAll ::
  "('e, 'm, 'v, 'd, 's, 'c) env \<Rightarrow> ('e, 'm, 'v) FileDescriptorProto list \<Rightarrow> 's \<Rightarrow> error + 's" where
  "preprocessAll env [] symbols = Inr symbols"
| "preprocessAll env (protoFile # rest) symbols =
     (case preprocess env symbols protoFile (name protoFile)
             (''.'' @ (case package protoFile of None \<Rightarrow> '''' | Some p \<Rightarrow> p)) of
        Inl e \<Rightarrow> Inl e
      | Inr symbols1 \<Rightarrow> preprocessAll env rest symbols1)"

text \<open>
  Line 85: the module path \<open>`./style/${options.style}/rpc.js`\<close>. A template literal
  prints an absent value as \<open>undefined\<close>.
\<close>

definition stylePath :: "Options \<Rightarrow> string" where
  "stylePath options =
     ''./style/'' @ (case style options of None \<Rightarrow> ''undefined'' | Some s \<Rightarrow> s) @ ''/rpc.js''"

text \<open>
  The state at entry: the factory has handed out \<open>n\<close> ids so far, \<open>type.js\<close> is
  as loaded.
\<close>

definition entryState :: "('e, 'm, 'v, 'd, 's, 'c) env \<Rightarrow> nat \<Rightarrow> 's state" where
  "entryState env n =
     \<lparr>nextAutoGenerateId = n,
      typeModule = \<lparr>symbolMap = initialSymbols env, dependencyMap = Map.empty\<rparr>\<rparr>"

text \<open>
  \<open>main\<close> (lines 70-152). The result is the response written to the output, or the
  exception that ended the run before anything was written.
\<close>

definition main ::
  "('e, 'm, 'v, 'd, 's, 'c) env \<Rightarrow> nat \<Rightarrow> ('e, 'm, 'v) CodeGeneratorRequest \<Rightarrow>
   error + 'c CodeGeneratorResponse" where
  "main env n request =
     (let (pbIdentifier, st1) = createUniqueName ''pb'' (entryState env n);
          (grpcIdentifier, st2) = createUniqueName ''grpc'' st1
      in case parseInput env (parameter request) of
           Inl e \<Rightarrow> Inl e
         | Inr options \<Rightarrow>
             (case importModule env (stylePath options) of
                None \<Rightarrow> Inl (ModuleNotFound (stylePath options))
              | Some rpc \<Rightarrow>
                  (case preprocessAll env (proto_file request) (symbolMap (typeModule st2)) of
                     Inl e \<Rightarrow> Inl e
                   | Inr symbols \<Rightarrow>
                       (case generateFiles env rpc options pbIdentifier grpcIdentifier
                               (compiler_version request) (proto_file request)
                               (st2\<lparr>typeModule := (typeModule st2)\<lparr>symbolMap := symbols\<rparr>\<rparr>) of
                          Inl e \<Rightarrow> Inl e
                        | Inr (files, st3) \<Rightarrow> Inr \<lparr>file' = files\<rparr>))))"

subsection \<open>Reading a source file; the state between two files\<close>

text \<open>
  What a source file imports and declares at top level: the identifiers of its imports
  in order, the modules imported under one identifier, and its declarations.
\<close>

fun importIdentifiers :: "'d Statement list \<Rightarrow> Identifier list" where
  "importIdentifiers [] = []"
| "importIdentifiers (ImportDeclaration identifier moduleSpecifier # rest) =
     identifier # importIdentifiers rest"
| "importIdentifiers (JSDocComment c # rest) = importIdentifiers rest"
| "importIdentifiers (Declaration d # rest) = importIdentifiers rest"

fun importedAs :: "Identifier \<Rightarrow> 'd Statement list \<Rightarrow> string list" where
  "importedAs alias [] = []"
| "importedAs alias (ImportDeclaration identifier moduleSpecifier # rest) =
     (if identifier = alias then moduleSpecifier # importedAs alias rest
      else importedAs alias rest)"
| "importedAs alias (JSDocComment c # rest) = importedAs alias rest"
| "importedAs alias (Declaration d # rest) = importedAs alias rest"

fun declarationsOf :: "'d Statement list \<Rightarrow> 'd list" where
  "declarationsOf [] = []"
| "declarationsOf (Declaration d # rest) = d # declarationsOf rest"
| "declarationsOf (JSDocComment c # rest) = declarationsOf rest"
| "declarationsOf (ImportDeclaration identifier moduleSpecifier # rest) = declarationsOf rest"

text \<open>
  The state when the loop over the files starts: two ids are spent (\<open>pb\<close>,
  \<open>grpc\<close>), the symbol table is the preprocessed one, no dependency is bound.
\<close>

definition startState :: "nat \<Rightarrow> 's \<Rightarrow> 's state" where
  "startState n symbols =
     \<lparr>nextAutoGenerateId = Suc (Suc n),
      typeModule = \<lparr>symbolMap = symbols, dependencyMap = Map.empty\<rparr>\<rparr>"

text \<open>
  What one pass of the loop does to the state (the translators only read it), and
  the state in which the pass over file \<open>i\<close> starts.
\<close>

definition fileEffect ::
  "('e, 'm, 'v, 'd, 's, 'c) env \<Rightarrow> 's state \<Rightarrow> ('e, 'm, 'v) FileDescriptorProto \<Rightarrow> 's state" where
  "fileEffect env st fileDescriptor =
     snd (createDependencyImports env fileDescriptor (dependency fileDescriptor)
            (resetDependencyMap st))"

definition stateBefore ::
  "('e, 'm, 'v, 'd, 's, 'c) env \<Rightarrow> ('e, 'm, 'v) FileDescriptorProto list \<Rightarrow> 's state \<Rightarrow> nat \<Rightarrow>
   's state" where
  "stateBefore env fs st i = foldl (fileEffect env) st (take i fs)"

text \<open>The id of the first dependency alias of file \<open>i\<close>.\<close>

definition aliasBase :: "nat \<Rightarrow> ('e, 'm, 'v) FileDescriptorProto list \<Rightarrow> nat \<Rightarrow> nat" where
  "aliasBase n fs i = Suc (Suc n) + sum_list (map (\<lambda>f. length (dependency f)) (take i fs))"

text \<open>
  The imports the callback over \<open>file.dependency\<close> returns when the counter
  stands at \<open>c\<close>: the \<open>k\<close>-th dependency is imported under the identifier of id
  \<open>c + k\<close>.
\<close>

definition dependencyImports ::
  "('e, 'm, 'v, 'd, 's, 'c) env \<Rightarrow> ('e, 'm, 'v) FileDescriptorProto \<Rightarrow> nat \<Rightarrow> string list \<Rightarrow>
   'd Statement list" where
  "dependencyImports env fileDescriptor c deps =
     map (\<lambda>(k, dep). createImport (uniqueName ''dependency'' k)
                         (dependencyModule env fileDescriptor dep))
       (enumerate c deps)"

text \<open>
  The statements handed to \<open>createSourceFile\<close> (lines 118-143) for a file whose
  first dependency alias gets id \<open>c\<close> and whose translated statements are given.
\<close>

definition sourceStatements ::
  "('e, 'm, 'v, 'd, 's, 'c) env \<Rightarrow> ('e, 'm, 'v, 'd, 's) Rpc \<Rightarrow> Options \<Rightarrow> Identifier \<Rightarrow>
   Identifier \<Rightarrow> Version \<Rightarrow> ('e, 'm, 'v) FileDescriptorProto \<Rightarrow> nat \<Rightarrow> 'd list \<Rightarrow>
   'd Statement list" where
  "sourceStatements env rpc options pbIdentifier grpcIdentifier version fileDescriptor c statements =
     [createComment fileDescriptor version]
     @ dependencyImports env fileDescriptor c (dependency fileDescriptor)
     @ [createImport pbIdentifier ''google-protobuf'',
        createImport grpcIdentifier (grpc_package options)]
     @ addStatements env rpc fileDescriptor statements"

subsection \<open>An example environment\<close>

text \<open>
  A small environment on which the definitions run: declarations that record what
  the translators were given, two styles (one implementing every operation, one
  implementing none), a flat directory, and a printer that returns the statements.
  A message is a name and the schema file its field's type comes from; the message
  translator records the alias the dependency map holds for that file.
\<close>

datatype exampleDecl =
    EnumDecl string
  | MessageDecl string "Identifier option" Identifier
  | InterfaceDecl Identifier
  | ServerDecl string Identifier
  | ClientDecl string Identifier
  | NamespaceDecl "string option" "exampleDecl list"

definition exampleRpc ::
  "(string, string \<times> string, string, exampleDecl, (string \<times> string) list) Rpc" where
  "exampleRpc =
     \<lparr>createServiceClient = Some (\<lambda>tm f s grpc options. Inr (ClientDecl s grpc)),
      createUnimplementedServer = Some (\<lambda>tm f s grpc. Inr (ServerDecl s grpc)),
      createGrpcInterfaceType = Some (\<lambda>tm grpc. Inr [InterfaceDecl grpc]),
      wrapInNamespace = Some (\<lambda>f. package f \<noteq> None)\<rparr>"

definition emptyRpc ::
  "(string, string \<times> string, string, exampleDecl, (string \<times> string) list) Rpc" where
  "emptyRpc =
     \<lparr>createServiceClient = None, createUnimplementedServer = None,
      createGrpcInterfaceType = None, wrapInNamespace = None\<rparr>"

definition exampleEnv ::
  "(string, string \<times> string, string, exampleDecl, (string \<times> string) list,
    exampleDecl Statement list) env" where
  "exampleEnv =
     \<lparr>parseInput = (\<lambda>p. Inr \<lparr>style = p, grpc_package = ''@grpc/grpc-js''\<rparr>),
      importModule =
        (\<lambda>path. if path = ''./style/grpc-js/rpc.js'' then Some exampleRpc
                 else if path = ''./style/none/rpc.js'' then Some emptyRpc
                 else None),
      initialSymbols = [],
      preprocess = (\<lambda>symbols f nm pk. Inr (symbols @ [(pk, nm)])),
      createEnum = (\<lambda>e. Inr (EnumDecl e)),
      createMessage = (\<lambda>tm f m pb. Inr [MessageDecl (fst m) (dependencyMap tm (snd m)) pb]),
      createNamespace = NamespaceDecl,
      dirname = (\<lambda>p. ''.''),
      relative = (\<lambda>from to. to),
      printFile = (\<lambda>statements. statements)\<rparr>"

text \<open>
  \<open>a.proto\<close> and \<open>b.proto\<close> both import \<open>c.proto\<close>; \<open>b.proto\<close> has a message
  \<open>M\<close> with a field of a type of \<open>c.proto\<close>, and a service \<open>S\<close>.
\<close>

definition exampleFiles :: "(string, string \<times> string, string) FileDescriptorProto list" where
  "exampleFiles =
     [\<lparr>name = ''a.proto'', package = Some ''x.y'', dependency = [''c.proto''],
       enum_type = [''Color''], message_type = [], service = []\<rparr>,
      \<lparr>name = ''b.proto'', package = None, dependency = [''c.proto''],
       enum_type = [], message_type = [(''M'', ''c.proto'')], service = [''S'']\<rparr>]"

definition exampleRequest ::
  "string option \<Rightarrow> (string, string \<times> string, string) CodeGeneratorRequest" where
  "exampleRequest styleName =
     \<lparr>parameter = styleName, proto_file = exampleFiles,
      compiler_version = \<lparr>major = Some 3, minor = Some 21, patch = None\<rparr>\<rparr>"

definition exampleHeader :: "string \<Rightarrow> exampleDecl Statement" where
  "exampleHeader source =
     JSDocComment
       (''Generated by @fyn-software/protoc-plugin-ts. DO NOT EDIT!'' @ [CHR 0x0A] @
        ''compiler version: 3.21.0'' @ [CHR 0x0A] @
        ''source: '' @ source @ [CHR 0x0A] @
        ''git: https://github.com/fyn-software/protoc-plugin-ts'' @ [CHR 0x0A])"

text \<open>The response to \<open>exampleRequest (Some ''none'')\<close>, the style with no operation.\<close>

definition exampleResponse :: "exampleDecl Statement list CodeGeneratorResponse" where
  "exampleResponse =
     \<lparr>file' =
        [\<lparr>out_name = ''a.ts'',
          content =
            [exampleHeader ''a.proto'',
             ImportDeclaration (uniqueName ''dependency'' 2) ''./c'',
             ImportDeclaration (uniqueName ''pb'' 0) ''google-protobuf'',
             ImportDeclaration (uniqueName ''grpc'' 1) ''@grpc/grpc-js'',
             Declaration (EnumDecl ''Color'')]\<rparr>,
         \<lparr>out_name = ''b.ts'',
          content =
            [exampleHeader ''b.proto'',
             ImportDeclaration (uniqueName ''dependency'' 3) ''./c'',
             ImportDeclaration (uniqueName ''pb'' 0) ''google-protobuf'',
             ImportDeclaration (uniqueName ''grpc'' 1) ''@grpc/grpc-js'',
             Declaration
               (MessageDecl ''M'' (Some (uniqueName ''dependency'' 2)) (uniqueName ''pb'' 0))]\<rparr>]\<rparr>"

text \<open>The response to \<open>exampleRequest (Some ''grpc-js'')\<close>, the style with every operation.\<close>

definition exampleResponseGrpc :: "exampleDecl Statement list CodeGeneratorResponse" where
  "exampleResponseGrpc =
     \<lparr>file' =
        [\<lparr>out_name = ''a.ts'',
          content =
            [exampleHeader ''a.proto'',
             ImportDeclaration (uniqueName ''dependency'' 2) ''./c'',
             ImportDeclaration (uniqueName ''pb'' 0) ''google-protobuf'',
             ImportDeclaration (uniqueName ''grpc'' 1) ''@grpc/grpc-js'',
             Declaration
               (NamespaceDecl (Some ''x.y'')
                  [EnumDecl ''Color'', InterfaceDecl (uniqueName ''grpc'' 1)])]\<rparr>,
         \<lparr>out_name = ''b.ts'',
          content =
            [exampleHeader ''b.proto'',
             ImportDeclaration (uniqueName ''dependency'' 3) ''./c'',
             ImportDeclaration (uniqueName ''pb'' 0) ''google-protobuf'',
             ImportDeclaration (uniqueName ''grpc'' 1) ''@grpc/grpc-js'',
             Declaration
               (MessageDecl ''M'' (Some (uniqueName ''dependency'' 2)) (uniqueName ''pb'' 0)),
             Declaration (InterfaceDecl (uniqueName ''grpc'' 1)),
             Declaration (ServerDecl ''S'' (uniqueName ''grpc'' 1)),
             Declaration (ClientDecl ''S'' (uniqueName ''grpc'' 1))]\<rparr>]\<rparr>"

text \<open>A request with one schema file in a directory, and its response.\<close>

definition nestedRequest :: "(string, string \<times> string, string) CodeGeneratorRequest" where
  "nestedRequest =
     \<lparr>parameter = Some ''none'',
      proto_file =
        [\<lparr>name = ''pkg.v1/api/b.proto'', package = Some ''pkg.v1'', dependency = [],
          enum_type = [''Color''], message_type = [], service = []\<rparr>],
      compiler_version = \<lparr>major = Some 3, minor = Some 21, patch = None\<rparr>\<rparr>"

definition nestedResponse :: "exampleDecl Statement list CodeGeneratorResponse" where
  "nestedResponse =
     \<lparr>file' =
        [\<lparr>out_name = ''pkg.v1/api/b.ts'',
          content =
            [exampleHeader ''pkg.v1/api/b.proto'',
             ImportDeclaration (uniqueName ''pb'' 7) ''google-protobuf'',
             ImportDeclaration (uniqueName ''grpc'' 8) ''@grpc/grpc-js'',
             Declaration (EnumDecl ''Color'')]\<rparr>]\<rparr>"

text \<open>The dependency aliases of file \<open>i\<close>, in the order of its dependencies.\<close>

definition dependencyAliases ::
  "nat \<Rightarrow> ('e, 'm, 'v) FileDescriptorProto list \<Rightarrow> nat \<Rightarrow> Identifier list" where
  "dependencyAliases n fs i =
     map (uniqueName ''dependency'') [aliasBase n fs i ..< aliasBase n fs (Suc i)]"


subsection \<open>Two runs\<close>

text \<open>
  Two runs of the plugin may start with the factory's counter at different values,
  so that every generated identifier of one run has the id of its counterpart in the
  other plus a constant. Shifting the ids of an identifier, of a statement (given
  how a declaration is shifted), of the type module and of the state:
\<close>

definition renameIdentifier :: "(nat \<Rightarrow> nat) \<Rightarrow> Identifier \<Rightarrow> Identifier" where
  "renameIdentifier h identifier = identifier\<lparr>autoGenerateId := h (autoGenerateId identifier)\<rparr>"

definition shiftIdentifier :: "nat \<Rightarrow> Identifier \<Rightarrow> Identifier" where
  "shiftIdentifier k = renameIdentifier (\<lambda>i. i + k)"

fun renameStatement :: "('d \<Rightarrow> 'd) \<Rightarrow> (nat \<Rightarrow> nat) \<Rightarrow> 'd Statement \<Rightarrow> 'd Statement" where
  "renameStatement r h (JSDocComment c) = JSDocComment c"
| "renameStatement r h (ImportDeclaration identifier moduleSpecifier) =
     ImportDeclaration (renameIdentifier h identifier) moduleSpecifier"
| "renameStatement r h (Declaration d) = Declaration (r d)"

definition shiftTypeModule :: "nat \<Rightarrow> 's TypeModule \<Rightarrow> 's TypeModule" where
  "shiftTypeModule k tm =
     tm\<lparr>dependencyMap := (\<lambda>dep. map_option (shiftIdentifier k) (dependencyMap tm dep))\<rparr>"


text \<open>
  The code outside \<open>index.ts\<close> uses generated identifiers only as names: given the
  shifted identifiers, a backend builds the shifted declarations (\<open>r\<close> shifts a
  declaration) and throws the same exceptions.
\<close>

definition shiftsWithRpc ::
  "('d \<Rightarrow> 'd) \<Rightarrow> nat \<Rightarrow> ('e, 'm, 'v, 'd, 's) Rpc \<Rightarrow> bool" where
  "shiftsWithRpc r k rpc =
     ((\<forall>g tm grpc. createGrpcInterfaceType rpc = Some g \<longrightarrow>
         g (shiftTypeModule k tm) (shiftIdentifier k grpc) = map_sum id (map r) (g tm grpc))
      \<and> (\<forall>g tm f s grpc. createUnimplementedServer rpc = Some g \<longrightarrow>
         g (shiftTypeModule k tm) f s (shiftIdentifier k grpc) = map_sum id r (g tm f s grpc))
      \<and> (\<forall>g tm f s grpc options. createServiceClient rpc = Some g \<longrightarrow>
         g (shiftTypeModule k tm) f s (shiftIdentifier k grpc) options
           = map_sum id r (g tm f s grpc options)))"

text \<open>
  The same of the translators and of every backend that can be loaded; and the
  printer prints a source file and the shifted source file alike (TypeScript's
  printer names a generated identifier after its text and its place in the file).
\<close>

definition shiftsWith ::
  "('d \<Rightarrow> 'd) \<Rightarrow> nat \<Rightarrow> ('e, 'm, 'v, 'd, 's, 'c) env \<Rightarrow> bool" where
  "shiftsWith r k env =
     ((\<forall>e d. createEnum env e = Inr d \<longrightarrow> r d = d)
      \<and> (\<forall>tm f m pb.
            createMessage env (shiftTypeModule k tm) f m (shiftIdentifier k pb)
              = map_sum id (map r) (createMessage env tm f m pb))
      \<and> (\<forall>p ds. createNamespace env p (map r ds) = r (createNamespace env p ds))
      \<and> (\<forall>source.
            printFile env (map (renameStatement r (\<lambda>i. i + k)) source) = printFile env source)
      \<and> (\<forall>path rpc. importModule env path = Some rpc \<longrightarrow> shiftsWithRpc r k rpc))"



section \<open>Properties\<close>

subsection \<open>The example runs\<close>

lemmas run_defs =
  main_def entryState_def createUniqueName_def stylePath_def generateFile_def
  createStatements_def createServiceDeclarations_def optionalCall_def resetDependencyMap_def
  setIdentifierForDependency_def createImport_def createComment_def showInt_def orZero_def
  replaceExtension_def addStatements_def wrapsInNamespace_def dependencyModule_def Let_def

lemmas example_defs =
  exampleEnv_def exampleRequest_def exampleFiles_def exampleRpc_def emptyRpc_def
  exampleHeader_def

lemma example_run: "main exampleEnv 0 (exampleRequest (Some ''none'')) = Inr exampleResponse"
  by (simp add: run_defs example_defs exampleResponse_def numeral_2_eq_2[symmetric])

lemma example_run_grpc:
  "main exampleEnv 0 (exampleRequest (Some ''grpc-js'')) = Inr exampleResponseGrpc"
  by (simp add: run_defs example_defs exampleResponseGrpc_def numeral_2_eq_2[symmetric])

subsection \<open>The loops\<close>

lemma mapResult_length: "mapResult f xs = Inr ys \<Longrightarrow> length ys = length xs"
  by (induction xs arbitrary: ys) (auto split: sum.splits)


lemma dependencyImports_simps:
  "dependencyImports env f c [] = []"
  "dependencyImports env f c (dep # deps) =
     createImport (uniqueName ''dependency'' c) (dependencyModule env f dep)
     # dependencyImports env f (Suc c) deps"
  by (simp_all add: dependencyImports_def)

lemma createDependencyImports_fst:
  "fst (createDependencyImports env f deps st) =
     dependencyImports env f (nextAutoGenerateId st) deps"
proof (induction deps arbitrary: st)
  case Nil
  then show ?case by (simp add: dependencyImports_simps)
next
  case (Cons dep deps)
  define st2 where
    "st2 = setIdentifierForDependency dep (fst (createUniqueName ''dependency'' st))
             (snd (createUniqueName ''dependency'' st))"
  have c: "nextAutoGenerateId st2 = Suc (nextAutoGenerateId st)"
    by (simp add: st2_def setIdentifierForDependency_def createUniqueName_def)
  have step: "fst (createDependencyImports env f (dep # deps) st) =
      createImport (uniqueName ''dependency'' (nextAutoGenerateId st)) (dependencyModule env f dep)
      # fst (createDependencyImports env f deps st2)"
    by (simp add: st2_def split_beta Let_def createUniqueName_def)
  show ?case
    by (simp only: step Cons.IH c dependencyImports_simps)
qed

lemma createDependencyImports_counter:
  "nextAutoGenerateId (snd (createDependencyImports env f deps st))
     = nextAutoGenerateId st + length deps"
proof (induction deps arbitrary: st)
  case Nil
  then show ?case by simp
next
  case (Cons dep deps)
  show ?case
    by (simp add: Cons.IH split_beta Let_def createUniqueName_def setIdentifierForDependency_def)
qed

lemma createDependencyImports_symbols:
  "symbolMap (typeModule (snd (createDependencyImports env f deps st))) = symbolMap (typeModule st)"
proof (induction deps arbitrary: st)
  case Nil
  then show ?case by simp
next
  case (Cons dep deps)
  show ?case
    by (simp add: Cons.IH split_beta Let_def createUniqueName_def setIdentifierForDependency_def)
qed

lemma stateBefore_Suc:
  "i < length fs \<Longrightarrow> stateBefore env fs st (Suc i) = fileEffect env (stateBefore env fs st i) (fs ! i)"
  by (simp add: stateBefore_def take_Suc_conv_app_nth)

lemma stateBefore_counter:
  "nextAutoGenerateId (stateBefore env fs (startState n symbols) i) = aliasBase n fs i"
proof (induction i)
  case 0
  then show ?case by (simp add: stateBefore_def startState_def aliasBase_def)
next
  case (Suc i)
  show ?case
  proof (cases "i < length fs")
    case True
    then show ?thesis using Suc
      by (simp add: stateBefore_Suc fileEffect_def createDependencyImports_counter
            resetDependencyMap_def aliasBase_def take_Suc_conv_app_nth)
  next
    case False
    then show ?thesis using Suc by (simp add: stateBefore_def aliasBase_def)
  qed
qed

lemma stateBefore_symbols:
  "symbolMap (typeModule (stateBefore env fs (startState n symbols) i)) = symbols"
proof (induction i)
  case 0
  then show ?case by (simp add: stateBefore_def startState_def)
next
  case (Suc i)
  show ?case
  proof (cases "i < length fs")
    case True
    then show ?thesis using Suc
      by (simp add: stateBefore_Suc fileEffect_def createDependencyImports_symbols
            resetDependencyMap_def)
  next
    case False
    then show ?thesis using Suc by (simp add: stateBefore_def)
  qed
qed

lemma generateFile_Inr:
  assumes "generateFile env rpc options pb grpc version f st = Inr (out, st')"
  shows "st' = fileEffect env st f \<and>
    (\<exists>statements.
       createStatements env rpc options pb grpc (typeModule st) f = Inr statements \<and>
       out = \<lparr>out_name = replaceExtension (name f) ''.ts'',
              content = printFile env
                (sourceStatements env rpc options pb grpc version f (nextAutoGenerateId st) statements)\<rparr>)"
proof -
  obtain statements where
    s: "createStatements env rpc options pb grpc (typeModule st) f = Inr statements"
    using assms by (auto simp: generateFile_def split: sum.splits)
  have c: "nextAutoGenerateId (resetDependencyMap st) = nextAutoGenerateId st"
    by (simp add: resetDependencyMap_def)
  have i: "fst (createDependencyImports env f (dependency f) (resetDependencyMap st)) =
     dependencyImports env f (nextAutoGenerateId st) (dependency f)"
    by (simp only: createDependencyImports_fst c)
  show ?thesis
    using assms s i
    by (auto simp: generateFile_def fileEffect_def sourceStatements_def Let_def split_beta)
qed

lemma generateFiles_length:
  "generateFiles env rpc options pb grpc version fs st = Inr (outs, st') \<Longrightarrow> length outs = length fs"
  by (induction fs arbitrary: st outs) (auto split: sum.splits prod.splits)

lemma generateFiles_nth:
  "generateFiles env rpc options pb grpc version fs st = Inr (outs, st') \<Longrightarrow> i < length fs \<Longrightarrow>
   generateFile env rpc options pb grpc version (fs ! i) (stateBefore env fs st i)
     = Inr (outs ! i, stateBefore env fs st (Suc i))"
proof (induction fs arbitrary: st outs i)
  case Nil
  then show ?case by simp
next
  case (Cons f fs)
  from Cons.prems(1) obtain out st1 rest where
    g: "generateFile env rpc options pb grpc version f st = Inr (out, st1)" and
    r: "generateFiles env rpc options pb grpc version fs st1 = Inr (rest, st')" and
    o: "outs = out # rest"
    by (auto split: sum.splits prod.splits)
  have s1: "st1 = fileEffect env st f" using generateFile_Inr[OF g] by simp
  show ?case
  proof (cases i)
    case 0
    then show ?thesis using g o s1 by (simp add: stateBefore_def)
  next
    case (Suc j)
    then have "j < length fs" using Cons.prems(2) by simp
    from Cons.IH[OF r this] show ?thesis using Suc o s1 by (simp add: stateBefore_def)
  qed
qed

lemma main_Inr:
  "main env n request = Inr response \<Longrightarrow>
   \<exists>options rpc symbols st.
     parseInput env (parameter request) = Inr options \<and>
     importModule env (stylePath options) = Some rpc \<and>
     preprocessAll env (proto_file request) (initialSymbols env) = Inr symbols \<and>
     generateFiles env rpc options (uniqueName ''pb'' n) (uniqueName ''grpc'' (Suc n))
        (compiler_version request) (proto_file request) (startState n symbols)
       = Inr (file' response, st)"
  by (auto simp: main_def createUniqueName_def entryState_def startState_def Let_def
           split: sum.splits option.splits prod.splits)

lemma main_length:
  "main env n request = Inr response \<Longrightarrow> length (file' response) = length (proto_file request)"
  using main_Inr generateFiles_length by blast

text \<open>
  The file generated at position \<open>i\<close> of a successful run: the translators ran on
  the state the loop had reached, and the source file is built from the counter
  reached there.
\<close>

lemma main_file:
  assumes "main env n request = Inr response" and "i < length (proto_file request)"
  shows "\<exists>options rpc symbols statements.
     parseInput env (parameter request) = Inr options \<and>
     importModule env (stylePath options) = Some rpc \<and>
     preprocessAll env (proto_file request) (initialSymbols env) = Inr symbols \<and>
     createStatements env rpc options (uniqueName ''pb'' n) (uniqueName ''grpc'' (Suc n))
        (typeModule (stateBefore env (proto_file request) (startState n symbols) i))
        (proto_file request ! i) = Inr statements \<and>
     file' response ! i =
       \<lparr>out_name = replaceExtension (name (proto_file request ! i)) ''.ts'',
        content = printFile env
          (sourceStatements env rpc options (uniqueName ''pb'' n) (uniqueName ''grpc'' (Suc n))
             (compiler_version request) (proto_file request ! i)
             (aliasBase n (proto_file request) i) statements)\<rparr>"
proof -
  from main_Inr[OF assms(1)] obtain options rpc symbols st where
    p: "parseInput env (parameter request) = Inr options" and
    m: "importModule env (stylePath options) = Some rpc" and
    s: "preprocessAll env (proto_file request) (initialSymbols env) = Inr symbols" and
    g: "generateFiles env rpc options (uniqueName ''pb'' n) (uniqueName ''grpc'' (Suc n))
        (compiler_version request) (proto_file request) (startState n symbols)
       = Inr (file' response, st)"
    by blast
  from generateFile_Inr[OF generateFiles_nth[OF g assms(2)]] p m s
  show ?thesis by (simp only: stateBefore_counter) blast
qed

subsection \<open>What a built source file holds\<close>

lemma importIdentifiers_append:
  "importIdentifiers (xs @ ys) = importIdentifiers xs @ importIdentifiers ys"
  by (induction xs rule: importIdentifiers.induct) simp_all

lemma importedAs_append: "importedAs a (xs @ ys) = importedAs a xs @ importedAs a ys"
  by (induction a xs rule: importedAs.induct) simp_all

lemma declarationsOf_append: "declarationsOf (xs @ ys) = declarationsOf xs @ declarationsOf ys"
  by (induction xs rule: declarationsOf.induct) simp_all

lemma declarationsOf_Declaration: "declarationsOf (map Declaration ds) = ds"
  by (induction ds) simp_all

lemma importIdentifiers_Declaration: "importIdentifiers (map Declaration ds) = []"
  by (induction ds) simp_all

lemma importedAs_Declaration: "importedAs a (map Declaration ds) = []"
  by (induction ds) simp_all

lemma dependencyImports_identifiers:
  "importIdentifiers
     (dependencyImports env f c deps)
   = map (uniqueName ''dependency'') [c ..< c + length deps]"
proof (induction deps arbitrary: c)
  case Nil
  then show ?case by (simp add: dependencyImports_simps)
next
  case (Cons dep deps)
  have "[c ..< c + length (dep # deps)] = c # [Suc c ..< Suc c + length deps]"
    by (subst upt_rec) simp
  then show ?case using Cons.IH[of "Suc c"] by (simp add: createImport_def dependencyImports_simps)
qed

lemma dependencyImports_declarations:
  "declarationsOf
     (dependencyImports env f c deps) = []"
  by (induction deps arbitrary: c) (simp_all add: createImport_def dependencyImports_simps)

lemma dependencyImports_importedAs:
  "escapedText a \<noteq> ''dependency'' \<Longrightarrow>
   importedAs a
     (dependencyImports env f c deps) = []"
  by (induction deps arbitrary: c) (auto simp: createImport_def uniqueName_def dependencyImports_simps)

lemma addStatements_declarations:
  "declarationsOf (addStatements env rpc f statements) =
     (if wrapsInNamespace rpc f then [createNamespace env (package f) statements] else statements)"
  by (simp add: addStatements_def declarationsOf_Declaration)

lemma addStatements_imports:
  "importIdentifiers (addStatements env rpc f statements) = []"
  "importedAs a (addStatements env rpc f statements) = []"
  by (simp_all add: addStatements_def importIdentifiers_Declaration importedAs_Declaration)

lemma sourceStatements_identifiers:
  "importIdentifiers (sourceStatements env rpc options pb grpc version f c statements) =
     map (uniqueName ''dependency'') [c ..< c + length (dependency f)] @ [pb, grpc]"
  by (simp add: sourceStatements_def importIdentifiers_append dependencyImports_identifiers
        addStatements_imports createImport_def createComment_def)

lemma sourceStatements_declarations:
  "declarationsOf (sourceStatements env rpc options pb grpc version f c statements) =
     (if wrapsInNamespace rpc f then [createNamespace env (package f) statements] else statements)"
  by (simp add: sourceStatements_def declarationsOf_append dependencyImports_declarations
        addStatements_declarations createImport_def createComment_def)

lemma sourceStatements_importedAs:
  "importedAs (uniqueName ''pb'' n)
     (sourceStatements env rpc options (uniqueName ''pb'' n) (uniqueName ''grpc'' (Suc n)) version f c
        statements) = [''google-protobuf'']"
  "importedAs (uniqueName ''grpc'' (Suc n))
     (sourceStatements env rpc options (uniqueName ''pb'' n) (uniqueName ''grpc'' (Suc n)) version f c
        statements) = [grpc_package options]"
  by (simp_all add: sourceStatements_def importedAs_append dependencyImports_importedAs
        addStatements_imports createImport_def createComment_def uniqueName_def)


subsection \<open>Output names\<close>

lemma replaceExtension_extension:
  assumes "ext \<noteq> []" and "CHR ''.'' \<notin> set ext" and "CHR ''/'' \<notin> set ext"
  shows "replaceExtension (stem @ ''.'' @ ext) e = stem @ e"
proof -
  let ?isExt = "\<lambda>c. c \<noteq> CHR ''/'' \<and> c \<noteq> CHR ''.''"
  have r: "rev (stem @ ''.'' @ ext) = rev ext @ CHR ''.'' # rev stem" by simp
  have all: "\<And>x. x \<in> set (rev ext) \<Longrightarrow> ?isExt x" using assms(2,3) by auto
  have "dropWhile ?isExt (rev ext @ CHR ''.'' # rev stem) = dropWhile ?isExt (CHR ''.'' # rev stem)"
    by (rule dropWhile_append2) (use all in blast)
  then have d: "dropWhile ?isExt (rev ext @ CHR ''.'' # rev stem) = CHR ''.'' # rev stem"
    by simp
  have "takeWhile ?isExt (rev ext @ CHR ''.'' # rev stem)
          = rev ext @ takeWhile ?isExt (CHR ''.'' # rev stem)"
    by (rule takeWhile_append2) (use all in blast)
  then have t: "takeWhile ?isExt (rev ext @ CHR ''.'' # rev stem) = rev ext"
    by simp
  show ?thesis
    unfolding replaceExtension_def Let_def r d t using assms(1) by simp
qed

text \<open>
  C8. In a successful run the generated file at position \<open>i\<close> is named after the
  schema file at position \<open>i\<close>: where that name ends in a dot and an extension (one
  or more characters, none a dot or a slash), the output name is the same name with
  \<open>.ts\<close> in place of the dot and the extension. What stands before, the directories
  included, is kept.
\<close>

theorem output_name_replaces_extension:
  assumes "main env n request = Inr response"
    and "i < length (proto_file request)"
    and "name (proto_file request ! i) = stem @ ''.'' @ ext"
    and "ext \<noteq> []" and "CHR ''.'' \<notin> set ext" and "CHR ''/'' \<notin> set ext"
  shows "out_name (file' response ! i) = stem @ ''.ts''"
proof -
  from main_file[OF assms(1,2)] have
    "out_name (file' response ! i) = replaceExtension (name (proto_file request ! i)) ''.ts''"
    by auto
  then show ?thesis
    using replaceExtension_extension[OF assms(4,5,6)] assms(3) by simp
qed

lemma nested_run:
  "main exampleEnv 7 nestedRequest = Inr nestedResponse"
  by (simp add: run_defs example_defs nestedRequest_def nestedResponse_def)

theorem output_name_replaces_extension_witness:
  "main exampleEnv 7 nestedRequest = Inr nestedResponse
   \<and> (0::nat) < length (proto_file nestedRequest)
   \<and> name (proto_file nestedRequest ! 0) = ''pkg.v1/api/b'' @ ''.'' @ ''proto''
   \<and> ''proto'' \<noteq> [] \<and> CHR ''.'' \<notin> set ''proto'' \<and> CHR ''/'' \<notin> set ''proto''
   \<and> out_name (file' nestedResponse ! 0) = ''pkg.v1/api/b.ts''"
proof -
  have l: "(0::nat) < length (proto_file nestedRequest)" by (simp add: nestedRequest_def)
  have nm: "name (proto_file nestedRequest ! 0) = ''pkg.v1/api/b'' @ ''.'' @ ''proto''"
    by (simp add: nestedRequest_def)
  have e: "''proto'' \<noteq> []" "CHR ''.'' \<notin> set ''proto''" "CHR ''/'' \<notin> set ''proto''" by simp_all
  from output_name_replaces_extension[OF nested_run l nm e]
  show ?thesis using nested_run l nm by simp
qed

subsection \<open>One generated file per schema file\<close>

text \<open>
  C2. A run that answers at all answers with as many generated files as the request
  has schema files, in the same order: the file at position \<open>i\<close> is the one the loop
  generated from the schema file at position \<open>i\<close>, and bears its name with the
  extension replaced. (A run ended by an exception writes no response.)
\<close>

theorem one_file_per_schema_file:
  assumes "main env n request = Inr response"
  shows "length (file' response) = length (proto_file request)
    \<and> map out_name (file' response)
        = map (\<lambda>f. replaceExtension (name f) ''.ts'') (proto_file request)
    \<and> (\<forall>i<length (proto_file request). \<exists>rpc options pb grpc st st'.
          generateFile env rpc options pb grpc (compiler_version request)
            (proto_file request ! i) st = Inr (file' response ! i, st'))"
proof -
  have len: "length (file' response) = length (proto_file request)"
    using assms by (rule main_length)
  have names: "map out_name (file' response)
        = map (\<lambda>f. replaceExtension (name f) ''.ts'') (proto_file request)"
  proof (rule nth_equalityI)
    show "length (map out_name (file' response))
        = length (map (\<lambda>f. replaceExtension (name f) ''.ts'') (proto_file request))"
      using len by simp
  next
    fix i assume "i < length (map out_name (file' response))"
    then have i: "i < length (proto_file request)" using len by simp
    from main_file[OF assms i] have
      "out_name (file' response ! i) = replaceExtension (name (proto_file request ! i)) ''.ts''"
      by auto
    then show "map out_name (file' response) ! i
        = map (\<lambda>f. replaceExtension (name f) ''.ts'') (proto_file request) ! i"
      using i len by simp
  qed
  have gen: "\<forall>i<length (proto_file request). \<exists>rpc options pb grpc st st'.
          generateFile env rpc options pb grpc (compiler_version request)
            (proto_file request ! i) st = Inr (file' response ! i, st')"
  proof (intro allI impI)
    fix i assume i: "i < length (proto_file request)"
    from main_Inr[OF assms] obtain options rpc symbols st where
      g: "generateFiles env rpc options (uniqueName ''pb'' n) (uniqueName ''grpc'' (Suc n))
          (compiler_version request) (proto_file request) (startState n symbols)
         = Inr (file' response, st)"
      by blast
    from generateFiles_nth[OF g i]
    show "\<exists>rpc options pb grpc st st'.
          generateFile env rpc options pb grpc (compiler_version request)
            (proto_file request ! i) st = Inr (file' response ! i, st')"
      by blast
  qed
  from len names gen show ?thesis by blast
qed

theorem one_file_per_schema_file_witness:
  "main exampleEnv 0 (exampleRequest (Some ''none'')) = Inr exampleResponse
   \<and> length (file' exampleResponse) = length (proto_file (exampleRequest (Some ''none'')))
   \<and> map out_name (file' exampleResponse) = [''a.ts'', ''b.ts'']"
  using one_file_per_schema_file[OF example_run] example_run
  by (simp add: exampleRequest_def exampleFiles_def replaceExtension_def)


subsection \<open>The runtime imports\<close>

text \<open>
  C3. Every generated file of a successful run is the print of a source file that
  imports exactly one module under the \<open>pb\<close> identifier, \<open>google-protobuf\<close>, and
  exactly one under the \<open>grpc\<close> identifier, the configured \<open>grpc_package\<close>; its only
  other imports are one per dependency. Nothing of the schema file's content
  enters: the file may declare no service and no dependency.
\<close>

theorem two_runtime_imports:
  assumes "main env n request = Inr response"
    and "parseInput env (parameter request) = Inr options"
    and "i < length (proto_file request)"
  shows "\<exists>source.
     content (file' response ! i) = printFile env source
     \<and> importedAs (uniqueName ''pb'' n) source = [''google-protobuf'']
     \<and> importedAs (uniqueName ''grpc'' (Suc n)) source = [grpc_package options]
     \<and> length (importIdentifiers source) = length (dependency (proto_file request ! i)) + 2"
proof -
  from main_file[OF assms(1,3)] assms(2) obtain rpc statements where
    c: "content (file' response ! i) = printFile env
          (sourceStatements env rpc options (uniqueName ''pb'' n) (uniqueName ''grpc'' (Suc n))
             (compiler_version request) (proto_file request ! i)
             (aliasBase n (proto_file request) i) statements)"
    by auto
  show ?thesis
    using c by (intro exI conjI, assumption)
      (simp_all add: sourceStatements_importedAs sourceStatements_identifiers)
qed

theorem two_runtime_imports_witness:
  "main exampleEnv 7 nestedRequest = Inr nestedResponse
   \<and> parseInput exampleEnv (parameter nestedRequest)
       = Inr \<lparr>style = Some ''none'', grpc_package = ''@grpc/grpc-js''\<rparr>
   \<and> (0::nat) < length (proto_file nestedRequest)
   \<and> importedAs (uniqueName ''pb'' 7) (content (file' nestedResponse ! 0)) = [''google-protobuf'']
   \<and> importedAs (uniqueName ''grpc'' 8) (content (file' nestedResponse ! 0)) = [''@grpc/grpc-js'']
   \<and> length (importIdentifiers (content (file' nestedResponse ! 0))) = 2"
proof -
  have p: "parseInput exampleEnv (parameter nestedRequest)
       = Inr \<lparr>style = Some ''none'', grpc_package = ''@grpc/grpc-js''\<rparr>"
    by (simp add: exampleEnv_def nestedRequest_def)
  have l: "(0::nat) < length (proto_file nestedRequest)" by (simp add: nestedRequest_def)
  from two_runtime_imports[OF nested_run p l]
  show ?thesis using nested_run p l
    by (simp add: exampleEnv_def nestedRequest_def)
qed

subsection \<open>The order of a generated file\<close>

text \<open>
  C4. In a successful run the content of the generated file at position \<open>i\<close> is
  the print of: the header comment; then one import per dependency of the schema
  file, in the order the schema file lists them, the \<open>k\<close>-th under a generated
  identifier named \<open>dependency\<close> and from the module
  \<open>./relative(dirname(file name), dependency without its extension)\<close>; then the
  import of \<open>google-protobuf\<close> and the import of the RPC package; then the translated
  statements, inside one namespace or as they are.
\<close>

theorem generated_content_order:
  assumes "main env n request = Inr response"
    and "parseInput env (parameter request) = Inr options"
    and "importModule env (stylePath options) = Some rpc"
    and "i < length (proto_file request)"
  shows "\<exists>c tm statements.
     createStatements env rpc options (uniqueName ''pb'' n) (uniqueName ''grpc'' (Suc n)) tm
        (proto_file request ! i) = Inr statements
     \<and> content (file' response ! i) = printFile env
         ([createComment (proto_file request ! i) (compiler_version request)]
          @ map (\<lambda>(k, dep). ImportDeclaration (uniqueName ''dependency'' k)
                   (''./'' @ relative env (dirname env (name (proto_file request ! i)))
                               (replaceExtension dep [])))
              (enumerate c (dependency (proto_file request ! i)))
          @ [ImportDeclaration (uniqueName ''pb'' n) ''google-protobuf'',
             ImportDeclaration (uniqueName ''grpc'' (Suc n)) (grpc_package options)]
          @ (if wrapsInNamespace rpc (proto_file request ! i)
             then [Declaration (createNamespace env (package (proto_file request ! i)) statements)]
             else map Declaration statements))"
proof -
  from main_file[OF assms(1,4)] assms(2,3) obtain symbols statements where
    s: "createStatements env rpc options (uniqueName ''pb'' n) (uniqueName ''grpc'' (Suc n))
        (typeModule (stateBefore env (proto_file request) (startState n symbols) i))
        (proto_file request ! i) = Inr statements" and
    c: "content (file' response ! i) = printFile env
          (sourceStatements env rpc options (uniqueName ''pb'' n) (uniqueName ''grpc'' (Suc n))
             (compiler_version request) (proto_file request ! i)
             (aliasBase n (proto_file request) i) statements)"
    by auto
  have "content (file' response ! i) = printFile env
         ([createComment (proto_file request ! i) (compiler_version request)]
          @ map (\<lambda>(k, dep). ImportDeclaration (uniqueName ''dependency'' k)
                   (''./'' @ relative env (dirname env (name (proto_file request ! i)))
                               (replaceExtension dep [])))
              (enumerate (aliasBase n (proto_file request) i) (dependency (proto_file request ! i)))
          @ [ImportDeclaration (uniqueName ''pb'' n) ''google-protobuf'',
             ImportDeclaration (uniqueName ''grpc'' (Suc n)) (grpc_package options)]
          @ (if wrapsInNamespace rpc (proto_file request ! i)
             then [Declaration (createNamespace env (package (proto_file request ! i)) statements)]
             else map Declaration statements))"
    unfolding c
    by (simp add: sourceStatements_def dependencyImports_def createImport_def
          dependencyModule_def addStatements_def)
  with s show ?thesis by blast
qed

theorem generated_content_order_witness:
  "main exampleEnv 0 (exampleRequest (Some ''grpc-js'')) = Inr exampleResponseGrpc
   \<and> parseInput exampleEnv (parameter (exampleRequest (Some ''grpc-js'')))
       = Inr \<lparr>style = Some ''grpc-js'', grpc_package = ''@grpc/grpc-js''\<rparr>
   \<and> importModule exampleEnv (stylePath \<lparr>style = Some ''grpc-js'', grpc_package = ''@grpc/grpc-js''\<rparr>)
       = Some exampleRpc
   \<and> (1::nat) < length (proto_file (exampleRequest (Some ''grpc-js'')))
   \<and> (\<exists>c tm statements.
        createStatements exampleEnv exampleRpc
          \<lparr>style = Some ''grpc-js'', grpc_package = ''@grpc/grpc-js''\<rparr>
          (uniqueName ''pb'' 0) (uniqueName ''grpc'' (Suc 0)) tm
          (proto_file (exampleRequest (Some ''grpc-js'')) ! 1) = Inr statements
        \<and> content (file' exampleResponseGrpc ! 1) =
            [exampleHeader ''b.proto'',
             ImportDeclaration (uniqueName ''dependency'' c) ''./c'',
             ImportDeclaration (uniqueName ''pb'' 0) ''google-protobuf'',
             ImportDeclaration (uniqueName ''grpc'' (Suc 0)) ''@grpc/grpc-js'']
            @ map Declaration statements)"
proof -
  have p: "parseInput exampleEnv (parameter (exampleRequest (Some ''grpc-js'')))
       = Inr \<lparr>style = Some ''grpc-js'', grpc_package = ''@grpc/grpc-js''\<rparr>"
    by (simp add: exampleEnv_def exampleRequest_def)
  have m: "importModule exampleEnv (stylePath \<lparr>style = Some ''grpc-js'', grpc_package = ''@grpc/grpc-js''\<rparr>)
       = Some exampleRpc"
    by (simp add: exampleEnv_def stylePath_def)
  have l: "(1::nat) < length (proto_file (exampleRequest (Some ''grpc-js'')))"
    by (simp add: exampleRequest_def exampleFiles_def)
  from generated_content_order[OF example_run_grpc p m l]
  show ?thesis using example_run_grpc p m l
    by (simp add: exampleEnv_def exampleRequest_def exampleFiles_def exampleRpc_def
          wrapsInNamespace_def createComment_def exampleHeader_def showInt_def orZero_def
          replaceExtension_def)
qed

subsection \<open>Namespace wrapping\<close>

text \<open>
  C6. In a successful run the declarations of the generated file at position \<open>i\<close>
  are the one namespace \<open>createNamespace(file.package, statements)\<close> exactly when the
  backend has a \<open>wrapInNamespace\<close> operation and it answers true for the schema
  file; when the operation is absent or answers false they are the translated
  statements themselves, at top level.
\<close>

theorem namespace_iff_backend_wraps:
  assumes "main env n request = Inr response"
    and "parseInput env (parameter request) = Inr options"
    and "importModule env (stylePath options) = Some rpc"
    and "i < length (proto_file request)"
  shows "\<exists>tm statements source.
     createStatements env rpc options (uniqueName ''pb'' n) (uniqueName ''grpc'' (Suc n)) tm
        (proto_file request ! i) = Inr statements
     \<and> content (file' response ! i) = printFile env source
     \<and> declarationsOf source =
         (if (\<exists>query. wrapInNamespace rpc = Some query \<and> query (proto_file request ! i))
          then [createNamespace env (package (proto_file request ! i)) statements]
          else statements)"
proof -
  from main_file[OF assms(1,4)] assms(2,3) obtain symbols statements where
    s: "createStatements env rpc options (uniqueName ''pb'' n) (uniqueName ''grpc'' (Suc n))
        (typeModule (stateBefore env (proto_file request) (startState n symbols) i))
        (proto_file request ! i) = Inr statements" and
    c: "content (file' response ! i) = printFile env
          (sourceStatements env rpc options (uniqueName ''pb'' n) (uniqueName ''grpc'' (Suc n))
             (compiler_version request) (proto_file request ! i)
             (aliasBase n (proto_file request) i) statements)"
    by auto
  have w: "wrapsInNamespace rpc (proto_file request ! i)
        = (\<exists>query. wrapInNamespace rpc = Some query \<and> query (proto_file request ! i))"
    by (simp add: wrapsInNamespace_def split: option.splits)
  have "declarationsOf
          (sourceStatements env rpc options (uniqueName ''pb'' n) (uniqueName ''grpc'' (Suc n))
             (compiler_version request) (proto_file request ! i)
             (aliasBase n (proto_file request) i) statements) =
         (if (\<exists>query. wrapInNamespace rpc = Some query \<and> query (proto_file request ! i))
          then [createNamespace env (package (proto_file request ! i)) statements]
          else statements)"
    by (simp only: sourceStatements_declarations w)
  with s c show ?thesis by blast
qed

theorem namespace_iff_backend_wraps_witness:
  "main exampleEnv 0 (exampleRequest (Some ''grpc-js'')) = Inr exampleResponseGrpc
   \<and> parseInput exampleEnv (parameter (exampleRequest (Some ''grpc-js'')))
       = Inr \<lparr>style = Some ''grpc-js'', grpc_package = ''@grpc/grpc-js''\<rparr>
   \<and> importModule exampleEnv (stylePath \<lparr>style = Some ''grpc-js'', grpc_package = ''@grpc/grpc-js''\<rparr>)
       = Some exampleRpc
   \<and> (0::nat) < length (proto_file (exampleRequest (Some ''grpc-js'')))
   \<and> (\<exists>tm statements.
        createStatements exampleEnv exampleRpc
          \<lparr>style = Some ''grpc-js'', grpc_package = ''@grpc/grpc-js''\<rparr>
          (uniqueName ''pb'' 0) (uniqueName ''grpc'' (Suc 0)) tm
          (proto_file (exampleRequest (Some ''grpc-js'')) ! 0) = Inr statements
        \<and> declarationsOf (content (file' exampleResponseGrpc ! 0))
            = [NamespaceDecl (Some ''x.y'') statements])"
proof -
  have p: "parseInput exampleEnv (parameter (exampleRequest (Some ''grpc-js'')))
       = Inr \<lparr>style = Some ''grpc-js'', grpc_package = ''@grpc/grpc-js''\<rparr>"
    by (simp add: exampleEnv_def exampleRequest_def)
  have m: "importModule exampleEnv (stylePath \<lparr>style = Some ''grpc-js'', grpc_package = ''@grpc/grpc-js''\<rparr>)
       = Some exampleRpc"
    by (simp add: exampleEnv_def stylePath_def)
  have l: "(0::nat) < length (proto_file (exampleRequest (Some ''grpc-js'')))"
    by (simp add: exampleRequest_def exampleFiles_def)
  from namespace_iff_backend_wraps[OF example_run_grpc p m l]
  show ?thesis using example_run_grpc p m l
    by (simp add: exampleEnv_def exampleRequest_def exampleFiles_def exampleRpc_def)
qed


subsection \<open>The backend is loaded before any file\<close>



subsection \<open>The runtime aliases and the dependency aliases\<close>

lemma aliasBase_Suc:
  "i < length fs \<Longrightarrow> aliasBase n fs (Suc i) = aliasBase n fs i + length (dependency (fs ! i))"
  by (simp add: aliasBase_def take_Suc_conv_app_nth)

lemma aliasBase_least: "Suc (Suc n) \<le> aliasBase n fs i"
  by (simp add: aliasBase_def)

lemma dependencyAliases_ids:
  "m \<le> length fs \<Longrightarrow>
   map autoGenerateId (concat (map (dependencyAliases n fs) [0..<m]))
     = [aliasBase n fs 0 ..< aliasBase n fs m]"
proof (induction m)
  case 0
  then show ?case by simp
next
  case (Suc m)
  then have m: "m < length fs" by simp
  have ids: "map autoGenerateId (dependencyAliases n fs m)
      = [aliasBase n fs m ..< aliasBase n fs m + length (dependency (fs ! m))]"
    by (simp add: dependencyAliases_def aliasBase_Suc[OF m] uniqueName_def comp_def)
  have mono: "aliasBase n fs 0 \<le> aliasBase n fs m"
    by (simp add: aliasBase_def)
  have "[aliasBase n fs 0 ..< aliasBase n fs m]
        @ [aliasBase n fs m ..< aliasBase n fs m + length (dependency (fs ! m))]
      = [aliasBase n fs 0 ..< aliasBase n fs m + length (dependency (fs ! m))]"
    using mono by (metis le_Suc_ex upt_add_eq_append)
  then show ?case using Suc.IH m ids by (simp add: aliasBase_Suc[OF m])
qed

text \<open>
  C10. \<open>pb\<close> and \<open>grpc\<close> are created once, before the loop: with the counter at
  \<open>n\<close> on entry they get the ids \<open>n\<close> and \<open>n + 1\<close>, and every generated file of
  the run imports under these same two identifiers. The dependency aliases are
  created inside the loop, one per dependency import, with the ids that follow; over
  the whole run no two of all these identifiers share an id.
\<close>

theorem runtime_aliases_shared_and_distinct:
  assumes "main env n request = Inr response"
  shows "(\<forall>i<length (proto_file request). \<exists>source.
            content (file' response ! i) = printFile env source
            \<and> importIdentifiers source =
                dependencyAliases n (proto_file request) i
                @ [uniqueName ''pb'' n, uniqueName ''grpc'' (Suc n)]
            \<and> length (dependencyAliases n (proto_file request) i)
                = length (dependency (proto_file request ! i)))
    \<and> distinct (map autoGenerateId
         (uniqueName ''pb'' n # uniqueName ''grpc'' (Suc n)
          # concat (map (dependencyAliases n (proto_file request))
                      [0..<length (proto_file request)])))"
proof (intro conjI allI impI)
  fix i assume i: "i < length (proto_file request)"
  from main_file[OF assms i] obtain options rpc statements where
    c: "content (file' response ! i) = printFile env
          (sourceStatements env rpc options (uniqueName ''pb'' n) (uniqueName ''grpc'' (Suc n))
             (compiler_version request) (proto_file request ! i)
             (aliasBase n (proto_file request) i) statements)"
    by auto
  have a: "importIdentifiers
          (sourceStatements env rpc options (uniqueName ''pb'' n) (uniqueName ''grpc'' (Suc n))
             (compiler_version request) (proto_file request ! i)
             (aliasBase n (proto_file request) i) statements)
        = dependencyAliases n (proto_file request) i
          @ [uniqueName ''pb'' n, uniqueName ''grpc'' (Suc n)]"
    by (simp only: sourceStatements_identifiers dependencyAliases_def aliasBase_Suc[OF i])
  have l: "length (dependencyAliases n (proto_file request) i)
                = length (dependency (proto_file request ! i))"
    by (simp add: dependencyAliases_def aliasBase_Suc[OF i])
  from c a l show "\<exists>source.
            content (file' response ! i) = printFile env source
            \<and> importIdentifiers source =
                dependencyAliases n (proto_file request) i
                @ [uniqueName ''pb'' n, uniqueName ''grpc'' (Suc n)]
            \<and> length (dependencyAliases n (proto_file request) i)
                = length (dependency (proto_file request ! i))"
    by blast
next
  have ids: "map autoGenerateId
      (concat (map (dependencyAliases n (proto_file request)) [0..<length (proto_file request)]))
     = [aliasBase n (proto_file request) 0
        ..< aliasBase n (proto_file request) (length (proto_file request))]"
    by (rule dependencyAliases_ids) simp
  have b: "aliasBase n (proto_file request) 0 = Suc (Suc n)"
    by (simp add: aliasBase_def)
  show "distinct (map autoGenerateId
         (uniqueName ''pb'' n # uniqueName ''grpc'' (Suc n)
          # concat (map (dependencyAliases n (proto_file request))
                      [0..<length (proto_file request)])))"
    by (simp add: ids b uniqueName_def)
qed

theorem runtime_aliases_shared_and_distinct_witness:
  "main exampleEnv 0 (exampleRequest (Some ''none'')) = Inr exampleResponse
   \<and> importIdentifiers (content (file' exampleResponse ! 0))
       = [uniqueName ''dependency'' 2, uniqueName ''pb'' 0, uniqueName ''grpc'' (Suc 0)]
   \<and> importIdentifiers (content (file' exampleResponse ! Suc 0))
       = [uniqueName ''dependency'' 3, uniqueName ''pb'' 0, uniqueName ''grpc'' (Suc 0)]
   \<and> distinct (map autoGenerateId
        [uniqueName ''pb'' 0, uniqueName ''grpc'' (Suc 0),
         uniqueName ''dependency'' 2, uniqueName ''dependency'' 3])"
proof -
  note t = runtime_aliases_shared_and_distinct[OF example_run]
  have d0: "dependencyAliases 0 (proto_file (exampleRequest (Some ''none''))) 0
      = [uniqueName ''dependency'' 2]"
    by (simp add: dependencyAliases_def aliasBase_def exampleRequest_def exampleFiles_def
          numeral_2_eq_2[symmetric] upt_rec)
  have d1: "dependencyAliases 0 (proto_file (exampleRequest (Some ''none''))) (Suc 0)
      = [uniqueName ''dependency'' 3]"
    by (simp add: dependencyAliases_def aliasBase_def exampleRequest_def exampleFiles_def
          numeral_2_eq_2[symmetric] upt_rec)
  have l: "length (proto_file (exampleRequest (Some ''none''))) = Suc (Suc 0)"
    by (simp add: exampleRequest_def exampleFiles_def)
  have i0: "0 < length (proto_file (exampleRequest (Some ''none'')))" by (simp add: l)
  have i1: "Suc 0 < length (proto_file (exampleRequest (Some ''none'')))" by (simp add: l)
  from t[THEN conjunct1, rule_format, OF i0]
  have a0: "importIdentifiers (content (file' exampleResponse ! 0))
       = [uniqueName ''dependency'' 2, uniqueName ''pb'' 0, uniqueName ''grpc'' (Suc 0)]"
    by (simp add: d0 exampleEnv_def)
  from t[THEN conjunct1, rule_format, OF i1]
  have a1: "importIdentifiers (content (file' exampleResponse ! Suc 0))
       = [uniqueName ''dependency'' 3, uniqueName ''pb'' 0, uniqueName ''grpc'' (Suc 0)]"
    by (simp add: d1 exampleEnv_def)
  from t[THEN conjunct2]
  have d: "distinct (map autoGenerateId
        [uniqueName ''pb'' 0, uniqueName ''grpc'' (Suc 0),
         uniqueName ''dependency'' 2, uniqueName ''dependency'' 3])"
    by (simp add: l d0 d1 upt_rec)
  from example_run a0 a1 d show ?thesis by blast
qed


subsection \<open>The dependency map the translators read\<close>



lemma stateBefore_first:
  "dependencyMap (typeModule (stateBefore env fs (startState n symbols) 0)) = Map.empty"
  by (simp add: stateBefore_def startState_def)






subsection \<open>Backends that lack operations\<close>


lemma optionalCall_present:
  "call g = Inr r \<Longrightarrow> optionalCall (Some g) call = Inr (Some r)"
  by (simp add: optionalCall_def)








subsection \<open>Two runs of one request\<close>












lemma renameIdentifier_same: "renameIdentifier (\<lambda>i. i) = (\<lambda>identifier. identifier)"
  by (simp add: renameIdentifier_def fun_eq_iff)

lemma renameStatement_same: "renameStatement (\<lambda>d. d) (\<lambda>i. i) s = s"
  by (cases s) (simp_all add: renameIdentifier_same)

lemma shiftIdentifier_zero: "shiftIdentifier 0 identifier = identifier"
  by (simp add: shiftIdentifier_def renameIdentifier_same)

lemma shiftTypeModule_zero: "shiftTypeModule 0 tm = tm"
proof -
  have "map_option (shiftIdentifier 0) a = a" for a
    by (cases a) (simp_all add: shiftIdentifier_zero)
  then show ?thesis by (simp add: shiftTypeModule_def)
qed

lemma map_sum_same: "map_sum id (\<lambda>d. d) x = x"
  by (cases x) simp_all

lemma map_sum_same_list: "map_sum id (map (\<lambda>d. d)) x = x"
  by (cases x) simp_all

text \<open>Without a shift the proviso holds of every environment.\<close>

lemma shiftsWith_zero: "shiftsWith (\<lambda>d. d) 0 env"
proof -
  have "map (renameStatement (\<lambda>d. d) (\<lambda>i. i)) source = source" for source :: "'a Statement list"
    by (induction source) (simp_all add: renameStatement_same)
  then show ?thesis
    unfolding shiftsWith_def shiftsWithRpc_def
    by (simp add: shiftTypeModule_zero shiftIdentifier_zero map_sum_same map_sum_same_list)
qed









end
